theory Spec2Isabelle
  imports Main "HOL-Library.Word" "HOL-Library.Sublist"
begin

section \<open>JavaScript strings\<close>

text \<open>
  A JavaScript string is a sequence of UTF-16 code units. \<open>js\<close> embeds an ASCII literal;
  code units beyond ASCII are written as numbers (\<open>0xFA\<close> is u with acute accent).
\<close>

type_synonym jsstring = "16 word list"

definition js :: "string \<Rightarrow> jsstring" where
  "js s = map of_char s"

text \<open>
  \<open>String.prototype.trim\<close> strips WhiteSpace and LineTerminator code units from both ends:
  TAB, LF, VT, FF, CR, SP, NBSP, the Unicode space separators, LS, PS and the BOM.
\<close>

definition isWhiteSpace :: "16 word \<Rightarrow> bool" where
  "isWhiteSpace c \<longleftrightarrow>
     c \<in> set [0x0009, 0x000A, 0x000B, 0x000C, 0x000D, 0x0020, 0x00A0, 0x1680,
              0x2000, 0x2001, 0x2002, 0x2003, 0x2004, 0x2005, 0x2006, 0x2007,
              0x2008, 0x2009, 0x200A, 0x2028, 0x2029, 0x202F, 0x205F, 0x3000, 0xFEFF]"

definition trim :: "jsstring \<Rightarrow> jsstring" where
  "trim s = rev (dropWhile isWhiteSpace (rev (dropWhile isWhiteSpace s)))"

text \<open>
  \<open>Date.now()\<close> is an integral number of milliseconds; inside a template literal it is
  rendered in decimal, with a leading minus sign below zero.
\<close>

fun digits :: "nat \<Rightarrow> jsstring" where
  "digits n = (if n < 10 then [0x30 + of_nat n]
               else digits (n div 10) @ [0x30 + of_nat (n mod 10)])"

declare digits.simps [simp del]

definition numberToString :: "int \<Rightarrow> jsstring" where
  "numberToString n = (if n < 0 then 0x2D # digits (nat (- n)) else digits (nat n))"

text \<open>A field of a parsed frame is a string or absent; only a non-empty string is truthy.\<close>

definition truthy :: "jsstring option \<Rightarrow> bool" where
  "truthy v = (case v of None \<Rightarrow> False | Some x \<Rightarrow> x \<noteq> [])"

section \<open>Data model of \<open>App.jsx\<close>\<close>

definition FASTAPI_BASE_URL :: jsstring where
  "FASTAPI_BASE_URL = js ''ws://localhost:8000/ws/chat/''"

record message =
  sender :: jsstring
  text_msg :: jsstring

definition PROFESOR :: jsstring where
  "PROFESOR = js ''Profesor Couoh Chi''"

definition TU :: jsstring where
  "TU = [0x54, 0xFA]"

definition SYSTEM :: jsstring where
  "SYSTEM = js ''System''"

definition welcomeMessage :: message where
  "welcomeMessage = \<lparr>sender = PROFESOR,
     text_msg = [0xA1] @ js ''Bienvenido al traductor Maya! puedo traducir cualquier frase en cualquier idioma al may''
                @ [0xE1, 0x20, 0xD83C, 0xDF3F]\<rparr>"

text \<open>
  The object that \<open>JSON.parse(event.data)\<close> yields: the three fields the handler reads,
  each a string or absent (\<open>undefined\<close>), as the frames of the protocol have them.
\<close>

record data =
  type :: "jsstring option"
  content :: "jsstring option"
  error :: "jsstring option"

definition start_ev :: data where
  "start_ev = \<lparr>type = Some (js ''start''), content = None, error = None\<rparr>"

definition chunk_ev :: "jsstring option \<Rightarrow> data" where
  "chunk_ev c = \<lparr>type = Some (js ''chunk''), content = c, error = None\<rparr>"

definition end_ev :: data where
  "end_ev = \<lparr>type = Some (js ''end''), content = None, error = None\<rparr>"

definition error_ev :: "jsstring \<Rightarrow> data" where
  "error_ev e = \<lparr>type = None, content = None, error = Some e\<rparr>"

datatype readyState = CONNECTING | OPEN | CLOSING | CLOSED

text \<open>
  A \<open>WebSocket\<close> object: its URL, its ready state, the frames handed to \<open>send\<close>, and the
  \<open>clientId\<close> that the closure of its handlers captured (the retry timer of \<open>onclose\<close>
  calls the \<open>connectWebSocket\<close> of that closure).
\<close>

record socket =
  url :: jsstring
  readyState :: readyState
  sent :: "jsstring list"
  closureClientId :: jsstring

text \<open>
  The component's state: the five \<open>useState\<close> cells, the ref \<open>ws.current\<close> (an index into
  the sockets created so far, \<open>None\<close> for \<open>null\<close>), the sockets themselves, and the pending
  \<open>setTimeout(connectWebSocket, 3000)\<close> callbacks, each with the \<open>clientId\<close> of its closure.
\<close>

record state =
  clientId :: jsstring
  messages :: "message list"
  input :: jsstring
  isConnected :: bool
  isTyping :: bool
  ws :: "nat option"
  sockets :: "socket list"
  timers :: "jsstring list"

datatype fetch_result = Response bool | Rejected

section \<open>The operations\<close>

definition mintClientId :: "int \<Rightarrow> jsstring" where
  "mintClientId now = js ''client-'' @ numberToString now"

definition initial :: "int \<Rightarrow> state" where
  "initial now = \<lparr>clientId = mintClientId now, messages = [welcomeMessage], input = [],
     isConnected = False, isTyping = False, ws = None, sockets = [], timers = []\<rparr>"

definition live :: "socket \<Rightarrow> bool" where
  "live k \<longleftrightarrow> readyState k = OPEN \<or> readyState k = CONNECTING"

definition wsLive :: "state \<Rightarrow> bool" where
  "wsLive s = (case ws s of None \<Rightarrow> False
               | Some i \<Rightarrow> i < length (sockets s) \<and> live (sockets s ! i))"

definition connectWebSocket :: "jsstring \<Rightarrow> state \<Rightarrow> state" where
  "connectWebSocket cid s =
     (if wsLive s then s
      else s\<lparr>sockets := sockets s @
                [\<lparr>url = FASTAPI_BASE_URL @ cid, readyState = CONNECTING, sent = [],
                  closureClientId = cid\<rparr>],
              ws := Some (length (sockets s))\<rparr>)"

definition onopen :: "state \<Rightarrow> state" where
  "onopen s = s\<lparr>isConnected := True\<rparr>"

definition lastMessage :: "message list \<Rightarrow> message option" where
  "lastMessage ms = (if ms = [] then None else Some (last ms))"

definition onmessage :: "data \<Rightarrow> state \<Rightarrow> state" where
  "onmessage d s =
     (let prevMessages = messages s in
      if type d = Some (js ''start'') then
        (case lastMessage prevMessages of
           None \<Rightarrow> s\<lparr>isTyping := True,
                     messages := prevMessages @ [\<lparr>sender = PROFESOR, text_msg = []\<rparr>]\<rparr>
         | Some m \<Rightarrow>
             if sender m \<noteq> PROFESOR \<or> text_msg m \<noteq> []
             then s\<lparr>isTyping := True,
                    messages := prevMessages @ [\<lparr>sender = PROFESOR, text_msg = []\<rparr>]\<rparr>
             else s\<lparr>isTyping := True\<rparr>)
      else if type d = Some (js ''chunk'') \<and> truthy (content d) then
        (case (lastMessage prevMessages, content d) of
           (Some m, Some c) \<Rightarrow>
             if sender m = PROFESOR
             then s\<lparr>messages := prevMessages[length prevMessages - 1 :=
                                   m\<lparr>text_msg := text_msg m @ c\<rparr>]\<rparr>
             else s
         | _ \<Rightarrow> s)
      else if type d = Some (js ''end'') then s\<lparr>isTyping := False\<rparr>
      else (case error d of
              Some e \<Rightarrow>
                if e \<noteq> []
                then s\<lparr>isTyping := False,
                       messages := prevMessages @
                         [\<lparr>sender = SYSTEM, text_msg = js ''Error: '' @ e\<rparr>]\<rparr>
                else s
            | None \<Rightarrow> s))"

definition onclose :: "jsstring \<Rightarrow> state \<Rightarrow> state" where
  "onclose cid s = s\<lparr>isConnected := False, isTyping := False, timers := timers s @ [cid]\<rparr>"

definition onerror :: "state \<Rightarrow> state" where
  "onerror s = s\<lparr>isConnected := False\<rparr>"

text \<open>\<open>ws.current.send(textToSend)\<close>, guarded as in \<open>sendMessage\<close>.\<close>

definition wsSend :: "jsstring \<Rightarrow> state \<Rightarrow> state" where
  "wsSend t s =
     (case ws s of
        None \<Rightarrow> s
      | Some i \<Rightarrow>
          if i < length (sockets s) \<and> readyState (sockets s ! i) = OPEN
          then s\<lparr>sockets := (sockets s)[i := (sockets s ! i)\<lparr>sent := sent (sockets s ! i) @ [t]\<rparr>]\<rparr>
          else s)"

definition sendMessage :: "state \<Rightarrow> state" where
  "sendMessage s =
     (let textToSend = trim (input s) in
      if textToSend = [] \<or> \<not> isConnected s \<or> isTyping s then s
      else (wsSend textToSend
              (s\<lparr>messages := messages s @ [\<lparr>sender = TU, text_msg = textToSend\<rparr>]\<rparr>))
           \<lparr>input := []\<rparr>)"

text \<open>
  \<open>if (ws.current) ws.current.close()\<close>: a socket that is open or opening starts closing,
  one that is closing or closed stays as it is.
\<close>

definition wsClose :: "state \<Rightarrow> state" where
  "wsClose s =
     (case ws s of
        None \<Rightarrow> s
      | Some i \<Rightarrow>
          if i < length (sockets s) \<and> live (sockets s ! i)
          then s\<lparr>sockets := (sockets s)[i := (sockets s ! i)\<lparr>readyState := CLOSING\<rparr>]\<rparr>
          else s)"

text \<open>
  \<open>clearHistory\<close> from the moment its \<open>fetch\<close> settles: \<open>Response ok\<close> is a response with
  that \<open>ok\<close> flag, \<open>Rejected\<close> a network failure; \<open>now\<close> is what \<open>Date.now()\<close> returns.
\<close>

definition clearHistory :: "fetch_result \<Rightarrow> int \<Rightarrow> state \<Rightarrow> state" where
  "clearHistory r now s =
     (case r of
        Response ok \<Rightarrow>
          if ok then (wsClose s)\<lparr>clientId := mintClientId now, messages := [welcomeMessage]\<rparr>
          else s\<lparr>messages := messages s @
                   [\<lparr>sender = SYSTEM, text_msg = js ''Error al borrar historial.''\<rparr>]\<rparr>
      | Rejected \<Rightarrow>
          s\<lparr>messages := messages s @
              [\<lparr>sender = SYSTEM, text_msg = js ''Error de conexi'' @ [0xF3] @ js ''n.''\<rparr>]\<rparr>)"

text \<open>
  \<open>useEffect(..., [clientId])\<close> after a render in which \<open>clientId\<close> differs from the one of
  the previous render: the cleanup closes \<open>ws.current\<close>, then the effect connects.
\<close>

definition clientIdEffect :: "jsstring \<Rightarrow> state \<Rightarrow> state" where
  "clientIdEffect previous s =
     (if clientId s = previous then s else connectWebSocket (clientId s) (wsClose s))"

section \<open>The event loop\<close>

text \<open>
  What can happen to the mounted component: a socket opens, delivers a frame, closes or
  reports an error; a retry timer fires; the user edits the input field, submits the
  form, or a history reset settles.
\<close>

datatype event =
    SocketOpen nat
  | SocketMessage nat data
  | SocketClose nat
  | SocketError nat
  | TimerFires nat
  | InputChange jsstring
  | Submit
  | Reset fetch_result int

definition setReadyState :: "nat \<Rightarrow> readyState \<Rightarrow> state \<Rightarrow> state" where
  "setReadyState i r s = s\<lparr>sockets := (sockets s)[i := (sockets s ! i)\<lparr>readyState := r\<rparr>]\<rparr>"

fun step :: "event \<Rightarrow> state \<Rightarrow> state" where
  "step (SocketOpen i) s =
     (if i < length (sockets s) \<and> readyState (sockets s ! i) = CONNECTING
      then onopen (setReadyState i OPEN s) else s)"
| "step (SocketMessage i d) s =
     (if i < length (sockets s) \<and> readyState (sockets s ! i) = OPEN
      then onmessage d s else s)"
| "step (SocketClose i) s =
     (if i < length (sockets s) \<and> readyState (sockets s ! i) \<noteq> CLOSED
      then onclose (closureClientId (sockets s ! i)) (setReadyState i CLOSED s) else s)"
| "step (SocketError i) s =
     (if i < length (sockets s) then onerror s else s)"
| "step (TimerFires k) s =
     (if k < length (timers s)
      then connectWebSocket (timers s ! k)
             (s\<lparr>timers := take k (timers s) @ drop (Suc k) (timers s)\<rparr>)
      else s)"
| "step (InputChange v) s = s\<lparr>input := v\<rparr>"
| "step Submit s = sendMessage s"
| "step (Reset r now) s = clientIdEffect (clientId s) (clearHistory r now s)"

fun run :: "event list \<Rightarrow> state \<Rightarrow> state" where
  "run [] s = s"
| "run (e # es) s = run es (step e s)"

text \<open>The component after its first render and the first run of the connection effect.\<close>

definition mounted :: "int \<Rightarrow> state" where
  "mounted now = connectWebSocket (mintClientId now) (initial now)"

section \<open>Predicates used in the properties\<close>

text \<open>
  \<open>extends ms ms'\<close>: the list \<open>ms'\<close> keeps every element of \<open>ms\<close> but the last as it is,
  keeps the sender of the last one and at most appends to its text (and that only if it
  is a message of the assistant), and may carry further messages after it.
\<close>

fun extends :: "message list \<Rightarrow> message list \<Rightarrow> bool" where
  "extends [] ms' = True"
| "extends (m # ms) [] = False"
| "extends [m] (m' # ms') =
     (sender m' = sender m \<and> prefix (text_msg m) (text_msg m') \<and>
      (m' = m \<or> sender m = PROFESOR))"
| "extends (m # ms) (m' # ms') = (m' = m \<and> extends ms ms')"

fun successfulReset :: "event \<Rightarrow> bool" where
  "successfulReset (Reset (Response ok) now) = ok"
| "successfulReset e = False"

text \<open>\<open>ws.current\<close> refers to a socket whose ready state is \<open>OPEN\<close>.\<close>

definition wsOpen :: "state \<Rightarrow> bool" where
  "wsOpen s = (case ws s of None \<Rightarrow> False
               | Some i \<Rightarrow> i < length (sockets s) \<and> readyState (sockets s ! i) = OPEN)"

text \<open>The indices of the sockets that are open or opening.\<close>

definition liveSockets :: "state \<Rightarrow> nat list" where
  "liveSockets s = filter (\<lambda>i. live (sockets s ! i)) [0..<length (sockets s)]"

text \<open>Every socket that is open or opening is the one \<open>ws.current\<close> refers to.\<close>

definition onlyCurrentLive :: "state \<Rightarrow> bool" where
  "onlyCurrentLive s = list_all (\<lambda>i. ws s = Some i) (liveSockets s)"

section \<open>Fields that the helpers leave alone\<close>

lemma connect_fields [simp]:
  "clientId (connectWebSocket cid s) = clientId s"
  "messages (connectWebSocket cid s) = messages s"
  "input (connectWebSocket cid s) = input s"
  "isConnected (connectWebSocket cid s) = isConnected s"
  "isTyping (connectWebSocket cid s) = isTyping s"
  "timers (connectWebSocket cid s) = timers s"
  by (simp_all add: connectWebSocket_def)

lemma wsClose_fields [simp]:
  "clientId (wsClose s) = clientId s"
  "messages (wsClose s) = messages s"
  "input (wsClose s) = input s"
  "isConnected (wsClose s) = isConnected s"
  "isTyping (wsClose s) = isTyping s"
  "timers (wsClose s) = timers s"
  "ws (wsClose s) = ws s"
  "length (sockets (wsClose s)) = length (sockets s)"
  by (simp_all add: wsClose_def split: option.splits)

lemma wsSend_fields [simp]:
  "clientId (wsSend t s) = clientId s"
  "messages (wsSend t s) = messages s"
  "input (wsSend t s) = input s"
  "isConnected (wsSend t s) = isConnected s"
  "isTyping (wsSend t s) = isTyping s"
  "timers (wsSend t s) = timers s"
  "ws (wsSend t s) = ws s"
  "length (sockets (wsSend t s)) = length (sockets s)"
  by (simp_all add: wsSend_def split: option.splits)

lemma successful_reset:
  "clientId (step (Reset (Response True) now) s) = mintClientId now"
  "messages (step (Reset (Response True) now) s) = [welcomeMessage]"
  by (simp_all add: clearHistory_def clientIdEffect_def)

section \<open>The stream assembler\<close>

lemma type_literals [simp]:
  "js ''start'' \<noteq> js ''chunk''" "js ''start'' \<noteq> js ''end''" "js ''chunk'' \<noteq> js ''end''"
  "js ''chunk'' \<noteq> js ''start''" "js ''end'' \<noteq> js ''start''" "js ''end'' \<noteq> js ''chunk''"
  by (simp_all add: js_def)

lemma onmessage_start:
  "onmessage start_ev s =
     (if messages s \<noteq> [] \<and> sender (last (messages s)) = PROFESOR
         \<and> text_msg (last (messages s)) = []
      then s\<lparr>isTyping := True\<rparr>
      else s\<lparr>isTyping := True,
             messages := messages s @ [\<lparr>sender = PROFESOR, text_msg = []\<rparr>]\<rparr>)"
  by (auto simp add: onmessage_def start_ev_def lastMessage_def Let_def)

lemma update_last: "xs \<noteq> [] \<Longrightarrow> xs[length xs - 1 := x] = butlast xs @ [x]"
  by (cases xs rule: rev_cases) (simp_all add: list_update_append)

lemma onmessage_chunk:
  "onmessage (chunk_ev c) s =
     (if truthy c \<and> messages s \<noteq> [] \<and> sender (last (messages s)) = PROFESOR
      then s\<lparr>messages := butlast (messages s) @
                [(last (messages s))\<lparr>text_msg := text_msg (last (messages s)) @ the c\<rparr>]\<rparr>
      else s)"
proof (cases "messages s = []")
  case True
  then show ?thesis
    by (simp add: onmessage_def chunk_ev_def lastMessage_def truthy_def Let_def
             split: option.splits)
next
  case False
  then show ?thesis
    by (simp add: onmessage_def chunk_ev_def lastMessage_def truthy_def Let_def update_last
             del: One_nat_def split: option.splits)
qed

lemma onmessage_end: "onmessage end_ev s = s\<lparr>isTyping := False\<rparr>"
  by (simp add: onmessage_def end_ev_def Let_def)

lemma onmessage_error:
  "onmessage (error_ev e) s =
     (if e = [] then s
      else s\<lparr>isTyping := False,
             messages := messages s @ [\<lparr>sender = SYSTEM, text_msg = js ''Error: '' @ e\<rparr>]\<rparr>)"
  by (simp add: onmessage_def error_ev_def Let_def)

text \<open>
  C1. The frames \<open>start\<close>, \<open>chunk(a)\<close>, \<open>chunk(b)\<close>, \<open>end\<close>, received in a state whose
  message list does not end in an empty assistant message, extend the list by exactly one
  assistant message whose text is \<open>a\<close> followed by \<open>b\<close>, and leave the typing flag false.
\<close>

theorem start_chunk_chunk_end:
  assumes "messages s = [] \<or> sender (last (messages s)) \<noteq> PROFESOR
           \<or> text_msg (last (messages s)) \<noteq> []"
  shows "messages (onmessage end_ev (onmessage (chunk_ev (Some b))
           (onmessage (chunk_ev (Some a)) (onmessage start_ev s))))
         = messages s @ [\<lparr>sender = PROFESOR, text_msg = a @ b\<rparr>]
       \<and> isTyping (onmessage end_ev (onmessage (chunk_ev (Some b))
           (onmessage (chunk_ev (Some a)) (onmessage start_ev s)))) = False"
  using assms by (auto simp add: onmessage_start onmessage_chunk onmessage_end truthy_def)

theorem start_chunk_chunk_end_witness:
  "messages ((initial 0)\<lparr>messages := []\<rparr>) = []
   \<and> messages (onmessage end_ev (onmessage (chunk_ev (Some (js '' k'iin'')))
        (onmessage (chunk_ev (Some (js ''Ma'alob'')))
          (onmessage start_ev ((initial 0)\<lparr>messages := []\<rparr>)))))
      = [\<lparr>sender = PROFESOR, text_msg = js ''Ma'alob k'iin''\<rparr>]
   \<and> isTyping (onmessage end_ev (onmessage (chunk_ev (Some (js '' k'iin'')))
        (onmessage (chunk_ev (Some (js ''Ma'alob'')))
          (onmessage start_ev ((initial 0)\<lparr>messages := []\<rparr>))))) = False"
  using start_chunk_chunk_end
          [of "(initial 0)\<lparr>messages := []\<rparr>" "js '' k'iin''" "js ''Ma'alob''"]
  by (simp add: initial_def js_def)

text \<open>
  C10. A \<open>chunk\<close> frame whose content is the empty string, or absent, changes nothing (in
  particular not the message list), whatever the last message is.
\<close>

theorem empty_chunk_ignored:
  "onmessage (chunk_ev (Some [])) s = s \<and> onmessage (chunk_ev None) s = s"
  by (simp add: onmessage_chunk truthy_def)

theorem empty_chunk_ignored_witness:
  "messages (onmessage (chunk_ev (Some []))
      ((initial 0)\<lparr>messages := [\<lparr>sender = PROFESOR, text_msg = js ''Ma''\<rparr>],
                   isTyping := True\<rparr>))
     = [\<lparr>sender = PROFESOR, text_msg = js ''Ma''\<rparr>]
   \<and> messages (onmessage (chunk_ev None)
      ((initial 0)\<lparr>messages := [\<lparr>sender = PROFESOR, text_msg = js ''Ma''\<rparr>],
                   isTyping := True\<rparr>))
     = [\<lparr>sender = PROFESOR, text_msg = js ''Ma''\<rparr>]"
  using empty_chunk_ignored
          [of "(initial 0)\<lparr>messages := [\<lparr>sender = PROFESOR, text_msg = js ''Ma''\<rparr>],
                          isTyping := True\<rparr>"]
  by simp

text \<open>
  C6. The frame \<open>{"error": e}\<close> with a non-empty \<open>e\<close> sets the typing flag to false and
  appends one message of the sender \<open>System\<close> whose text is \<open>Error: \<close> followed by \<open>e\<close>;
  the messages that were there stay as they are.
\<close>

theorem error_event:
  assumes "e \<noteq> []"
  shows "isTyping (onmessage (error_ev e) s) = False
       \<and> messages (onmessage (error_ev e) s)
           = messages s @ [\<lparr>sender = SYSTEM, text_msg = js ''Error: '' @ e\<rparr>]"
  using assms by (simp add: onmessage_error)

theorem error_event_witness:
  "js ''boom'' \<noteq> []
   \<and> isTyping (onmessage (error_ev (js ''boom'')) ((initial 0)\<lparr>isTyping := True\<rparr>)) = False
   \<and> messages (onmessage (error_ev (js ''boom'')) ((initial 0)\<lparr>isTyping := True\<rparr>))
       = [welcomeMessage, \<lparr>sender = SYSTEM, text_msg = js ''Error: boom''\<rparr>]"
  using error_event [of "js ''boom''" "(initial 0)\<lparr>isTyping := True\<rparr>"]
  by (simp add: initial_def js_def)

text \<open>
  C2, as stated, fails: the handler looks only at the sender of the last message, not at
  the typing flag. After \<open>start\<close>, \<open>chunk(a)\<close>, \<open>end\<close> the flag is false, and a further
  \<open>chunk(b)\<close> still changes the message list.
\<close>

theorem chunk_after_end_counterexample:
  "isTyping (onmessage end_ev (onmessage (chunk_ev (Some (js ''a'')))
      (onmessage start_ev (initial 0)))) = False
   \<and> messages (onmessage (chunk_ev (Some (js ''b'')))
        (onmessage end_ev (onmessage (chunk_ev (Some (js ''a'')))
          (onmessage start_ev (initial 0)))))
     \<noteq> messages (onmessage end_ev (onmessage (chunk_ev (Some (js ''a'')))
          (onmessage start_ev (initial 0))))"
  by (simp add: onmessage_start onmessage_chunk onmessage_end truthy_def initial_def
        welcomeMessage_def js_def PROFESOR_def)

text \<open>
  C2, amended. A \<open>chunk\<close> frame never creates a message and never alters a message other
  than the last one. It changes nothing when the list is empty, when the last message is
  not of the assistant, or when its content is empty or absent. When the last message is
  of the assistant, a non-empty content is appended to its text, whether or not a stream
  is open.
\<close>

theorem chunk_effect:
  "length (messages (onmessage (chunk_ev c) s)) = length (messages s)
   \<and> butlast (messages (onmessage (chunk_ev c) s)) = butlast (messages s)
   \<and> (messages s = [] \<or> sender (last (messages s)) \<noteq> PROFESOR \<or> \<not> truthy c
        \<longrightarrow> onmessage (chunk_ev c) s = s)
   \<and> (messages s \<noteq> [] \<and> sender (last (messages s)) = PROFESOR \<and> truthy c
        \<longrightarrow> last (messages (onmessage (chunk_ev c) s))
             = (last (messages s))\<lparr>text_msg := text_msg (last (messages s)) @ the c\<rparr>)"
  by (auto simp add: onmessage_chunk)

theorem chunk_effect_witness:
  "onmessage (chunk_ev (Some (js ''x'')))
       ((initial 0)\<lparr>messages := [\<lparr>sender = TU, text_msg = js ''hola''\<rparr>]\<rparr>)
     = (initial 0)\<lparr>messages := [\<lparr>sender = TU, text_msg = js ''hola''\<rparr>]\<rparr>
   \<and> last (messages (onmessage (chunk_ev (Some (js ''x''))) (initial 0)))
     = welcomeMessage\<lparr>text_msg := text_msg welcomeMessage @ js ''x''\<rparr>"
  using chunk_effect [of "Some (js ''x'')"
                         "(initial 0)\<lparr>messages := [\<lparr>sender = TU, text_msg = js ''hola''\<rparr>]\<rparr>"]
        chunk_effect [of "Some (js ''x'')" "initial 0"]
  by (simp add: initial_def truthy_def js_def TU_def PROFESOR_def welcomeMessage_def)

text \<open>
  C7, as stated, fails: besides the frames, the socket's \<open>close\<close> event sets the typing
  flag to false. Here a stream is started on the open socket, then the socket closes.
\<close>

theorem close_resets_typing_counterexample:
  "isTyping (run [SocketOpen 0, SocketMessage 0 start_ev] (mounted 0)) = True
   \<and> isTyping (step (SocketClose 0)
        (run [SocketOpen 0, SocketMessage 0 start_ev] (mounted 0))) = False"
  by (simp add: mounted_def initial_def connectWebSocket_def wsLive_def onopen_def
        setReadyState_def onmessage_start onclose_def)

lemma typing_sendMessage: "isTyping (sendMessage s) = isTyping s"
  by (simp add: sendMessage_def Let_def)

lemma typing_clearHistory: "isTyping (clearHistory r now s) = isTyping s"
  by (simp add: clearHistory_def split: fetch_result.splits)

lemma typing_clientIdEffect: "isTyping (clientIdEffect p s) = isTyping s"
  by (simp add: clientIdEffect_def)

lemma typing_other_events:
  "(case ev of SocketMessage i d \<Rightarrow> True | SocketClose i \<Rightarrow> True
     | _ \<Rightarrow> isTyping (step ev s) = isTyping s)"
  by (cases ev)
     (simp_all add: onopen_def setReadyState_def onerror_def
        typing_sendMessage typing_clearHistory typing_clientIdEffect)

text \<open>
  C7, amended. A frame of type \<open>start\<close> sets the typing flag to true (also when it is true
  already); a frame of type \<open>end\<close> sets it to false and leaves the message list as it is;
  an error frame (no \<open>start\<close>, \<open>end\<close> or content-bearing \<open>chunk\<close>, and a non-empty error
  text) sets it to false; every other frame leaves it as it is. The socket's \<open>close\<close>
  handler sets it to false as well, and no other event of the component (a socket
  opening, a transport error, a retry timer, an input change, a submission, a reset)
  changes it.
\<close>

theorem typing_flag_transitions:
  "(type d = Some (js ''start'') \<longrightarrow> isTyping (onmessage d s) = True)
   \<and> (type d = Some (js ''end'') \<longrightarrow>
        isTyping (onmessage d s) = False \<and> messages (onmessage d s) = messages s)
   \<and> (type d \<noteq> Some (js ''start'') \<and> type d \<noteq> Some (js ''end'')
        \<and> \<not> (type d = Some (js ''chunk'') \<and> truthy (content d)) \<and> truthy (error d)
        \<longrightarrow> isTyping (onmessage d s) = False)
   \<and> (type d \<noteq> Some (js ''start'') \<and> type d \<noteq> Some (js ''end'')
        \<and> ((type d = Some (js ''chunk'') \<and> truthy (content d)) \<or> \<not> truthy (error d))
        \<longrightarrow> isTyping (onmessage d s) = isTyping s)
   \<and> isTyping (onclose cid s) = False
   \<and> (case ev of SocketMessage i d \<Rightarrow> True | SocketClose i \<Rightarrow> True
        | _ \<Rightarrow> isTyping (step ev s) = isTyping s)"
proof -
  have "type d = Some (js ''start'') \<Longrightarrow> isTyping (onmessage d s) = True"
    by (simp add: onmessage_def Let_def split: option.splits)
  moreover have "type d = Some (js ''end'') \<Longrightarrow>
      isTyping (onmessage d s) = False \<and> messages (onmessage d s) = messages s"
    by (simp add: onmessage_def Let_def)
  moreover have "type d \<noteq> Some (js ''start'') \<Longrightarrow> type d \<noteq> Some (js ''end'') \<Longrightarrow>
      \<not> (type d = Some (js ''chunk'') \<and> truthy (content d)) \<Longrightarrow> truthy (error d) \<Longrightarrow>
      isTyping (onmessage d s) = False"
    by (auto simp add: onmessage_def Let_def truthy_def split: option.splits)
  moreover have "type d \<noteq> Some (js ''start'') \<Longrightarrow> type d \<noteq> Some (js ''end'') \<Longrightarrow>
      (type d = Some (js ''chunk'') \<and> truthy (content d)) \<or> \<not> truthy (error d) \<Longrightarrow>
      isTyping (onmessage d s) = isTyping s"
    by (auto simp add: onmessage_def Let_def truthy_def split: option.splits)
  moreover have "isTyping (onclose cid s) = False"
    by (simp add: onclose_def)
  ultimately show ?thesis
    using typing_other_events [of ev s] by blast
qed

theorem typing_flag_transitions_witness:
  "isTyping (onmessage start_ev (initial 0)) = True
   \<and> isTyping (onmessage end_ev ((initial 0)\<lparr>isTyping := True\<rparr>)) = False
   \<and> messages (onmessage end_ev ((initial 0)\<lparr>isTyping := True\<rparr>)) = [welcomeMessage]
   \<and> isTyping (onmessage (error_ev (js ''boom'')) ((initial 0)\<lparr>isTyping := True\<rparr>)) = False
   \<and> isTyping (onmessage (chunk_ev (Some (js ''x''))) ((initial 0)\<lparr>isTyping := True\<rparr>)) = True
   \<and> isTyping (onclose (js ''c'') ((initial 0)\<lparr>isTyping := True\<rparr>)) = False
   \<and> isTyping (step Submit ((initial 0)\<lparr>isTyping := True\<rparr>)) = True"
  using typing_flag_transitions [of start_ev "initial 0" "js ''c''" Submit]
        typing_flag_transitions [of end_ev "(initial 0)\<lparr>isTyping := True\<rparr>" "js ''c''" Submit]
        typing_flag_transitions [of "error_ev (js ''boom'')" "(initial 0)\<lparr>isTyping := True\<rparr>"
                                    "js ''c''" Submit]
        typing_flag_transitions [of "chunk_ev (Some (js ''x''))" "(initial 0)\<lparr>isTyping := True\<rparr>"
                                    "js ''c''" Submit]
  by (simp add: start_ev_def end_ev_def error_ev_def chunk_ev_def truthy_def initial_def js_def)

section \<open>Submission path\<close>

lemma sendMessage_rejected:
  "trim (input s) = [] \<or> \<not> isConnected s \<or> isTyping s \<Longrightarrow> sendMessage s = s"
  by (simp add: sendMessage_def Let_def)

lemma sendMessage_accepted:
  assumes "trim (input s) \<noteq> []" "isConnected s" "\<not> isTyping s"
  shows "sendMessage s =
    (wsSend (trim (input s))
       (s\<lparr>messages := messages s @ [\<lparr>sender = TU, text_msg = trim (input s)\<rparr>]\<rparr>))\<lparr>input := []\<rparr>"
  using assms by (simp add: sendMessage_def Let_def)

lemma sockets_wsSend:
  "sockets (wsSend t s) =
     (if wsOpen s
      then (sockets s)[the (ws s) := (sockets s ! the (ws s))\<lparr>sent := sent (sockets s ! the (ws s)) @ [t]\<rparr>]
      else sockets s)"
  by (simp add: wsSend_def wsOpen_def split: option.splits)

lemma wsOpen_messages_update [simp]: "wsOpen (s\<lparr>messages := ms\<rparr>) = wsOpen s"
  by (simp add: wsOpen_def split: option.splits)

text \<open>
  C3, as stated, fails: the connected flag can be true while the current socket is not
  open. After a successful reset the old socket is closing and the new one still
  connecting, and the flag stays true until the old socket's \<open>close\<close> event arrives. A
  submission in between is accepted and appended, yet nothing is sent on any socket.
\<close>

theorem unsent_submission_counterexample:
  "isConnected (run [SocketOpen 0, Reset (Response True) 1700000060000, InputChange (js ''hola'')]
                  (mounted 1700000000000))
   \<and> \<not> isTyping (run [SocketOpen 0, Reset (Response True) 1700000060000, InputChange (js ''hola'')]
                  (mounted 1700000000000))
   \<and> trim (input (run [SocketOpen 0, Reset (Response True) 1700000060000, InputChange (js ''hola'')]
                  (mounted 1700000000000))) = js ''hola''
   \<and> messages (run [SocketOpen 0, Reset (Response True) 1700000060000, InputChange (js ''hola''),
                  Submit] (mounted 1700000000000))
       = [welcomeMessage, \<lparr>sender = TU, text_msg = js ''hola''\<rparr>]
   \<and> map sent (sockets (run [SocketOpen 0, Reset (Response True) 1700000060000,
                  InputChange (js ''hola''), Submit] (mounted 1700000000000))) = [Nil, Nil]
   \<and> map readyState (sockets (run [SocketOpen 0, Reset (Response True) 1700000060000,
                  InputChange (js ''hola''), Submit] (mounted 1700000000000))) = [CLOSING, CONNECTING]"
  by (simp add: mounted_def initial_def connectWebSocket_def wsLive_def live_def onopen_def
        setReadyState_def clearHistory_def clientIdEffect_def wsClose_def sendMessage_def
        wsSend_def trim_def isWhiteSpace_def js_def Let_def
        mintClientId_def numberToString_def digits.simps)

text \<open>
  C3, amended. The submission handler changes nothing when the trimmed input is empty,
  the connected flag is false, or the typing flag is true. Otherwise it appends exactly
  one message of the user whose text is the trimmed input and clears the input field; it
  hands that trimmed text to \<open>send\<close> on the current socket when that socket is \<open>OPEN\<close>, and
  transmits nothing when there is no current socket or it is not \<open>OPEN\<close>.
\<close>

theorem submission:
  "(trim (input s) = [] \<or> \<not> isConnected s \<or> isTyping s \<longrightarrow> sendMessage s = s)
   \<and> (trim (input s) \<noteq> [] \<and> isConnected s \<and> \<not> isTyping s \<longrightarrow>
        messages (sendMessage s) = messages s @ [\<lparr>sender = TU, text_msg = trim (input s)\<rparr>]
      \<and> input (sendMessage s) = []
      \<and> (wsOpen s \<longrightarrow> sockets (sendMessage s) =
            (sockets s)[the (ws s) := (sockets s ! the (ws s))
               \<lparr>sent := sent (sockets s ! the (ws s)) @ [trim (input s)]\<rparr>])
      \<and> (\<not> wsOpen s \<longrightarrow> sockets (sendMessage s) = sockets s))"
proof (intro conjI impI)
  assume "trim (input s) = [] \<or> \<not> isConnected s \<or> isTyping s"
  then show "sendMessage s = s" by (rule sendMessage_rejected)
next
  assume a: "trim (input s) \<noteq> [] \<and> isConnected s \<and> \<not> isTyping s"
  then have eq: "sendMessage s =
    (wsSend (trim (input s))
       (s\<lparr>messages := messages s @ [\<lparr>sender = TU, text_msg = trim (input s)\<rparr>]\<rparr>))\<lparr>input := []\<rparr>"
    by (simp add: sendMessage_accepted)
  show "messages (sendMessage s) = messages s @ [\<lparr>sender = TU, text_msg = trim (input s)\<rparr>]"
    by (simp add: eq)
  show "input (sendMessage s) = []"
    by (simp add: eq)
  { assume "wsOpen s"
    then show "sockets (sendMessage s) =
            (sockets s)[the (ws s) := (sockets s ! the (ws s))
               \<lparr>sent := sent (sockets s ! the (ws s)) @ [trim (input s)]\<rparr>]"
      by (simp add: eq sockets_wsSend) }
  { assume "\<not> wsOpen s"
    then show "sockets (sendMessage s) = sockets s"
      by (simp add: eq sockets_wsSend) }
qed

theorem submission_witness:
  "sendMessage (run [SocketOpen 0, InputChange (js ''   '')] (mounted 0))
     = run [SocketOpen 0, InputChange (js ''   '')] (mounted 0)
   \<and> messages (sendMessage (run [SocketOpen 0, InputChange (js ''  hola '')] (mounted 0)))
       = [welcomeMessage, \<lparr>sender = TU, text_msg = js ''hola''\<rparr>]
   \<and> input (sendMessage (run [SocketOpen 0, InputChange (js ''  hola '')] (mounted 0))) = []
   \<and> map sent (sockets (sendMessage (run [SocketOpen 0, InputChange (js ''  hola '')] (mounted 0))))
       = [Cons (js ''hola'') Nil]"
  using submission [of "run [SocketOpen 0, InputChange (js ''   '')] (mounted 0)"]
        submission [of "run [SocketOpen 0, InputChange (js ''  hola '')] (mounted 0)"]
  by (simp add: mounted_def initial_def connectWebSocket_def wsLive_def onopen_def
        setReadyState_def wsOpen_def trim_def isWhiteSpace_def js_def)

section \<open>Session reset\<close>

text \<open>
  C4. When the reset's request fails (a response that is not ok, or a rejected fetch), the
  message list grows by exactly one element, a message of the sender \<open>System\<close>, every
  earlier element stays as it is, and the session identifier is the one before.
\<close>

theorem failed_reset:
  assumes "r \<noteq> Response True"
  shows "length (messages (step (Reset r now) s)) = length (messages s) + 1
       \<and> take (length (messages s)) (messages (step (Reset r now) s)) = messages s
       \<and> sender (last (messages (step (Reset r now) s))) = SYSTEM
       \<and> clientId (step (Reset r now) s) = clientId s"
proof (cases r)
  case (Response ok)
  with assms have "\<not> ok" by simp
  with Response show ?thesis by (simp add: clearHistory_def clientIdEffect_def)
next
  case Rejected
  then show ?thesis by (simp add: clearHistory_def clientIdEffect_def)
qed

theorem failed_reset_witness:
  "Response False \<noteq> Response True
   \<and> messages (step (Reset (Response False) 5) (mounted 0))
       = [welcomeMessage, \<lparr>sender = SYSTEM, text_msg = js ''Error al borrar historial.''\<rparr>]
   \<and> clientId (step (Reset (Response False) 5) (mounted 0)) = clientId (mounted 0)"
  using failed_reset [of "Response False" 5 "mounted 0"]
  by (simp add: clearHistory_def clientIdEffect_def mounted_def initial_def
        connectWebSocket_def wsLive_def)

text \<open>
  C5. After a successful reset the message list is exactly the welcome message. The new
  session identifier is \<open>client-\<close> followed by the clock reading, so it is the previous one
  again when the previous one was minted at the same reading: here two resets settle
  within the same millisecond.
\<close>

theorem reset_same_millisecond:
  "clientId (step (Reset (Response True) 1700000060000)
       (step (Reset (Response True) 1700000060000) (mounted 1700000000000)))
     = clientId (step (Reset (Response True) 1700000060000) (mounted 1700000000000))
   \<and> messages (step (Reset (Response True) 1700000060000)
       (step (Reset (Response True) 1700000060000) (mounted 1700000000000)))
     = [welcomeMessage]"
  by (simp only: successful_reset)

section \<open>The message list over the event loop\<close>

lemma extends_append: "extends ms (ms @ ns)"
proof (induction ms)
  case Nil
  then show ?case by simp
next
  case (Cons m ms)
  then show ?case by (cases ms) simp_all
qed

lemma extends_refl: "extends ms ms"
  using extends_append [of ms "[]"] by simp

lemma extends_last_text:
  "ms \<noteq> [] \<Longrightarrow> sender (last ms) = PROFESOR \<Longrightarrow>
   extends ms (butlast ms @ [(last ms)\<lparr>text_msg := text_msg (last ms) @ c\<rparr>])"
proof (induction ms)
  case Nil
  then show ?case by simp
next
  case (Cons m ms)
  then show ?case by (cases ms) simp_all
qed

lemma extends_trans: "extends xs ys \<Longrightarrow> extends ys zs \<Longrightarrow> extends xs zs"
proof (induction xs ys arbitrary: zs rule: extends.induct)
  case (1 ms')
  then show ?case by simp
next
  case (2 m ms)
  then show ?case by simp
next
  case (3 m m' ms')
  then show ?case
    by (cases zs; cases ms') (auto intro: prefix_order.trans)
next
  case (4 m v va m' ms')
  then show ?case
    by (cases zs; cases ms') auto
qed

lemma onmessage_shape:
  "messages (onmessage d s) = messages s
   \<or> (\<exists>m. messages (onmessage d s) = messages s @ [m])
   \<or> (messages s \<noteq> [] \<and> sender (last (messages s)) = PROFESOR
       \<and> (\<exists>c. messages (onmessage d s)
             = butlast (messages s) @ [(last (messages s))\<lparr>text_msg := text_msg (last (messages s)) @ c\<rparr>]))"
  by (auto simp add: onmessage_def Let_def lastMessage_def update_last simp del: One_nat_def
        split: option.splits)

lemma sendMessage_messages:
  "messages (sendMessage s) = messages s
   \<or> (\<exists>m. messages (sendMessage s) = messages s @ [m])"
  by (simp add: sendMessage_def Let_def)

lemma step_shape:
  assumes "\<not> successfulReset e"
  shows "messages (step e s) = messages s
   \<or> (\<exists>m. messages (step e s) = messages s @ [m])
   \<or> (messages s \<noteq> [] \<and> sender (last (messages s)) = PROFESOR
       \<and> (\<exists>c. messages (step e s)
             = butlast (messages s) @ [(last (messages s))\<lparr>text_msg := text_msg (last (messages s)) @ c\<rparr>]))"
proof (cases e)
  case (SocketOpen i)
  then show ?thesis by (simp add: onopen_def setReadyState_def)
next
  case (SocketMessage i d)
  then show ?thesis using onmessage_shape [of d s] by simp
next
  case (SocketClose i)
  then show ?thesis by (simp add: onclose_def setReadyState_def)
next
  case (SocketError i)
  then show ?thesis by (simp add: onerror_def)
next
  case (TimerFires k)
  then show ?thesis by simp
next
  case (InputChange v)
  then show ?thesis by simp
next
  case Submit
  then show ?thesis using sendMessage_messages [of s] by auto
next
  case (Reset r now)
  with assms show ?thesis
    by (cases r) (simp_all add: clearHistory_def clientIdEffect_def)
qed

lemma step_extends:
  assumes "\<not> successfulReset e"
  shows "extends (messages s) (messages (step e s))"
  using step_shape [OF assms, of s]
  by (auto simp add: extends_refl extends_append extends_last_text)

lemma run_extends:
  "list_all (\<lambda>e. \<not> successfulReset e) es \<Longrightarrow> extends (messages s) (messages (run es s))"
proof (induction es arbitrary: s)
  case Nil
  then show ?case by (simp add: extends_refl)
next
  case (Cons e es)
  then have "extends (messages s) (messages (step e s))"
    and "extends (messages (step e s)) (messages (run es (step e s)))"
    by (simp_all add: step_extends)
  then show ?case using extends_trans by simp
qed

text \<open>
  C8, amended. Every event other than a successful reset leaves the message list as it
  is, appends one whole message at its end, or appends text to its last element, and that
  only when the last element is a message of the assistant: so at most one message
  accepts fragments, and it is the last one. Over any sequence of such events no element
  before the last one of the starting list is modified or removed. A successful reset
  replaces the whole list by the single welcome message.
\<close>

theorem append_only:
  "(\<not> successfulReset e \<longrightarrow>
       messages (step e s) = messages s
     \<or> (\<exists>m. messages (step e s) = messages s @ [m])
     \<or> (messages s \<noteq> [] \<and> sender (last (messages s)) = PROFESOR
         \<and> (\<exists>c. messages (step e s)
               = butlast (messages s)
                 @ [(last (messages s))\<lparr>text_msg := text_msg (last (messages s)) @ c\<rparr>])))
   \<and> (list_all (\<lambda>e. \<not> successfulReset e) es \<longrightarrow>
        extends (messages s) (messages (run es s)))
   \<and> (successfulReset e \<longrightarrow> messages (step e s) = [welcomeMessage])"
proof (intro conjI impI)
  assume "\<not> successfulReset e"
  then show "messages (step e s) = messages s
     \<or> (\<exists>m. messages (step e s) = messages s @ [m])
     \<or> (messages s \<noteq> [] \<and> sender (last (messages s)) = PROFESOR
         \<and> (\<exists>c. messages (step e s)
               = butlast (messages s)
                 @ [(last (messages s))\<lparr>text_msg := text_msg (last (messages s)) @ c\<rparr>]))"
    by (rule step_shape)
next
  assume "list_all (\<lambda>e. \<not> successfulReset e) es"
  then show "extends (messages s) (messages (run es s))" by (rule run_extends)
next
  assume "successfulReset e"
  then obtain now where "e = Reset (Response True) now"
    by (cases e rule: successfulReset.cases) auto
  then show "messages (step e s) = [welcomeMessage]"
    by (simp only: successful_reset)
qed

text \<open>
  C8, as stated, fails for resets: a successful reset removes the earlier messages.
\<close>

theorem reset_replaces_list_counterexample:
  "messages (run [SocketOpen 0, InputChange (js ''hola''), Submit] (mounted 0))
     = [welcomeMessage, \<lparr>sender = TU, text_msg = js ''hola''\<rparr>]
   \<and> messages (step (Reset (Response True) 5)
        (run [SocketOpen 0, InputChange (js ''hola''), Submit] (mounted 0))) = [welcomeMessage]
   \<and> \<not> extends (messages (run [SocketOpen 0, InputChange (js ''hola''), Submit] (mounted 0)))
         (messages (step (Reset (Response True) 5)
            (run [SocketOpen 0, InputChange (js ''hola''), Submit] (mounted 0))))"
proof -
  have a: "messages (run [SocketOpen 0, InputChange (js ''hola''), Submit] (mounted 0))
     = [welcomeMessage, \<lparr>sender = TU, text_msg = js ''hola''\<rparr>]"
    by (simp add: mounted_def initial_def connectWebSocket_def wsLive_def onopen_def
        setReadyState_def sendMessage_def trim_def isWhiteSpace_def js_def Let_def)
  have b: "messages (step (Reset (Response True) 5)
        (run [SocketOpen 0, InputChange (js ''hola''), Submit] (mounted 0))) = [welcomeMessage]"
    by (simp only: successful_reset)
  have c: "\<not> extends [welcomeMessage, \<lparr>sender = TU, text_msg = js ''hola''\<rparr>] [welcomeMessage]"
    by simp
  show ?thesis
    unfolding a b using c by simp
qed

theorem append_only_witness:
  "list_all (\<lambda>e. \<not> successfulReset e)
      [Submit, SocketMessage 0 start_ev, SocketMessage 0 (chunk_ev (Some (js ''x''))),
       Reset Rejected 5]
   \<and> extends (messages (run [SocketOpen 0, InputChange (js ''hola'')] (mounted 0)))
        (messages (run [Submit, SocketMessage 0 start_ev,
                        SocketMessage 0 (chunk_ev (Some (js ''x''))), Reset Rejected 5]
                    (run [SocketOpen 0, InputChange (js ''hola'')] (mounted 0))))
   \<and> successfulReset (Reset (Response True) 5)
   \<and> messages (step (Reset (Response True) 5)
        (run [SocketOpen 0, InputChange (js ''hola'')] (mounted 0))) = [welcomeMessage]"
  using append_only [of Submit "run [SocketOpen 0, InputChange (js ''hola'')] (mounted 0)"
                        "[Submit, SocketMessage 0 start_ev,
                          SocketMessage 0 (chunk_ev (Some (js ''x''))), Reset Rejected 5]",
                     THEN conjunct2, THEN conjunct1]
        append_only [of "Reset (Response True) 5"
                        "run [SocketOpen 0, InputChange (js ''hola'')] (mounted 0)" "[]",
                     THEN conjunct2, THEN conjunct2]
  by simp

section \<open>The connection manager\<close>

lemma onlyCurrentLive_iff:
  "onlyCurrentLive s \<longleftrightarrow> (\<forall>i<length (sockets s). live (sockets s ! i) \<longrightarrow> ws s = Some i)"
  by (auto simp add: onlyCurrentLive_def liveSockets_def list_all_iff)

lemma no_live_unless_wsLive:
  "onlyCurrentLive s \<Longrightarrow> \<not> wsLive s \<Longrightarrow> i < length (sockets s) \<Longrightarrow> \<not> live (sockets s ! i)"
  by (auto simp add: onlyCurrentLive_iff wsLive_def)

lemma inv_connect: "onlyCurrentLive s \<Longrightarrow> onlyCurrentLive (connectWebSocket cid s)"
proof (cases "wsLive s")
  case True
  assume "onlyCurrentLive s"
  with True show ?thesis by (simp add: connectWebSocket_def)
next
  case False
  assume inv: "onlyCurrentLive s"
  show ?thesis
    unfolding onlyCurrentLive_iff
  proof (intro allI impI)
    fix i
    assume i: "i < length (sockets (connectWebSocket cid s))"
       and l: "live (sockets (connectWebSocket cid s) ! i)"
    from False have eq: "connectWebSocket cid s = s\<lparr>sockets := sockets s @
                [\<lparr>url = FASTAPI_BASE_URL @ cid, readyState = CONNECTING, sent = [],
                  closureClientId = cid\<rparr>],
              ws := Some (length (sockets s))\<rparr>"
      by (simp add: connectWebSocket_def)
    show "ws (connectWebSocket cid s) = Some i"
    proof (cases "i < length (sockets s)")
      case True
      with l eq have "live (sockets s ! i)" by (simp add: nth_append)
      with no_live_unless_wsLive [OF inv False True] show ?thesis by simp
    next
      case False
      with i eq have "i = length (sockets s)" by simp
      with eq show ?thesis by simp
    qed
  qed
qed

lemma inv_wsClose: "onlyCurrentLive s \<Longrightarrow> onlyCurrentLive (wsClose s)"
  by (auto simp add: onlyCurrentLive_iff wsClose_def live_def nth_list_update split: option.splits)

lemma inv_wsSend: "onlyCurrentLive s \<Longrightarrow> onlyCurrentLive (wsSend t s)"
  by (auto simp add: onlyCurrentLive_iff wsSend_def live_def nth_list_update split: option.splits)

lemma inv_fields [simp]:
  "onlyCurrentLive (s\<lparr>messages := ms\<rparr>) = onlyCurrentLive s"
  "onlyCurrentLive (s\<lparr>input := v\<rparr>) = onlyCurrentLive s"
  "onlyCurrentLive (s\<lparr>isConnected := b\<rparr>) = onlyCurrentLive s"
  "onlyCurrentLive (s\<lparr>isTyping := b\<rparr>) = onlyCurrentLive s"
  "onlyCurrentLive (s\<lparr>clientId := c\<rparr>) = onlyCurrentLive s"
  "onlyCurrentLive (s\<lparr>timers := ts\<rparr>) = onlyCurrentLive s"
  by (simp_all add: onlyCurrentLive_iff)

lemma onmessage_sockets:
  "sockets (onmessage d s) = sockets s \<and> ws (onmessage d s) = ws s"
  by (simp add: onmessage_def Let_def split: option.splits)

lemma inv_onmessage: "onlyCurrentLive s \<Longrightarrow> onlyCurrentLive (onmessage d s)"
  by (simp add: onlyCurrentLive_iff onmessage_sockets)

lemma inv_sendMessage: "onlyCurrentLive s \<Longrightarrow> onlyCurrentLive (sendMessage s)"
  by (simp add: sendMessage_def Let_def inv_wsSend)

lemma inv_clearHistory: "onlyCurrentLive s \<Longrightarrow> onlyCurrentLive (clearHistory r now s)"
  by (simp add: clearHistory_def inv_wsClose split: fetch_result.splits)

lemma inv_clientIdEffect: "onlyCurrentLive s \<Longrightarrow> onlyCurrentLive (clientIdEffect p s)"
  by (simp add: clientIdEffect_def inv_wsClose inv_connect)

lemma inv_shrink:
  assumes "onlyCurrentLive s" "ws s' = ws s" "length (sockets s') = length (sockets s)"
    and "\<And>j. j < length (sockets s) \<Longrightarrow> live (sockets s' ! j) \<Longrightarrow> live (sockets s ! j)"
  shows "onlyCurrentLive s'"
  using assms by (simp add: onlyCurrentLive_iff)

lemma inv_opened:
  assumes "onlyCurrentLive s" "i < length (sockets s)" "readyState (sockets s ! i) = CONNECTING"
  shows "onlyCurrentLive (setReadyState i OPEN s)"
proof (rule inv_shrink [OF assms(1)])
  fix j
  assume "j < length (sockets s)" "live (sockets (setReadyState i OPEN s) ! j)"
  with assms(3) show "live (sockets s ! j)"
    by (cases "j = i") (simp_all add: setReadyState_def live_def)
qed (simp_all add: setReadyState_def)

lemma inv_closed: "onlyCurrentLive s \<Longrightarrow> onlyCurrentLive (setReadyState i CLOSED s)"
proof (rule inv_shrink [of s])
  fix j
  assume "j < length (sockets s)" "live (sockets (setReadyState i CLOSED s) ! j)"
  then show "live (sockets s ! j)"
    by (cases "j = i") (simp_all add: setReadyState_def live_def)
qed (simp_all add: setReadyState_def)

lemma inv_step: "onlyCurrentLive s \<Longrightarrow> onlyCurrentLive (step e s)"
proof (cases e)
  case (SocketOpen i)
  assume "onlyCurrentLive s"
  with SocketOpen show ?thesis by (simp add: onopen_def inv_opened)
next
  case (SocketMessage i d)
  assume "onlyCurrentLive s"
  with SocketMessage show ?thesis by (simp add: inv_onmessage)
next
  case (SocketClose i)
  assume "onlyCurrentLive s"
  with SocketClose show ?thesis by (simp add: onclose_def inv_closed)
next
  case (SocketError i)
  assume "onlyCurrentLive s"
  with SocketError show ?thesis by (simp add: onerror_def)
next
  case (TimerFires k)
  assume "onlyCurrentLive s"
  with TimerFires show ?thesis by (simp add: inv_connect)
next
  case (InputChange v)
  assume "onlyCurrentLive s"
  with InputChange show ?thesis by simp
next
  case Submit
  assume "onlyCurrentLive s"
  with Submit show ?thesis by (simp add: inv_sendMessage)
next
  case (Reset r now)
  assume "onlyCurrentLive s"
  with Reset show ?thesis by (simp add: inv_clientIdEffect inv_clearHistory)
qed

lemma inv_run: "onlyCurrentLive s \<Longrightarrow> onlyCurrentLive (run es s)"
  by (induction es arbitrary: s) (simp_all add: inv_step)

lemma inv_mounted: "onlyCurrentLive (mounted now)"
  by (simp add: mounted_def initial_def connectWebSocket_def wsLive_def onlyCurrentLive_iff)

lemma connect_noop: "wsLive s \<Longrightarrow> connectWebSocket cid s = s"
  by (simp add: connectWebSocket_def)

lemma at_most_one_live: "onlyCurrentLive s \<Longrightarrow> length (liveSockets s) \<le> 1"
proof -
  assume inv: "onlyCurrentLive s"
  have d: "distinct (liveSockets s)" by (simp add: liveSockets_def)
  show ?thesis
  proof (cases "liveSockets s")
    case Nil
    then show ?thesis by simp
  next
    case (Cons i rest)
    with inv have "ws s = Some i" and "\<forall>j\<in>set rest. ws s = Some j"
      by (auto simp add: onlyCurrentLive_def list_all_iff)
    then have "\<forall>j\<in>set rest. j = i" by auto
    with d Cons have "rest = []" by (cases rest) auto
    with Cons show ?thesis by simp
  qed
qed

lemma live_is_current:
  "onlyCurrentLive s \<Longrightarrow> liveSockets s \<noteq> [] \<Longrightarrow> wsLive s"
proof -
  assume inv: "onlyCurrentLive s" and ne: "liveSockets s \<noteq> []"
  then obtain i where i: "i \<in> set (liveSockets s)" by (cases "liveSockets s") auto
  then have "i < length (sockets s)" "live (sockets s ! i)"
    by (simp_all add: liveSockets_def)
  moreover from inv i have "ws s = Some i" by (simp add: onlyCurrentLive_def list_all_iff)
  ultimately show ?thesis by (simp add: wsLive_def)
qed

text \<open>
  C9. A call of \<open>connectWebSocket\<close> that finds \<open>ws.current\<close> open or opening changes
  nothing. In every state the mounted component can reach, at most one socket is open or
  opening (hence at most one for any session identifier), and whenever one is, whatever
  its session identifier, a call of \<open>connectWebSocket\<close> changes nothing.
\<close>

theorem single_live_connection:
  "(wsLive s \<longrightarrow> connectWebSocket cid s = s)
   \<and> length (liveSockets (run es (mounted now))) \<le> 1
   \<and> length (filter (\<lambda>i. url (sockets (run es (mounted now)) ! i) = FASTAPI_BASE_URL @ c)
                (liveSockets (run es (mounted now)))) \<le> 1
   \<and> (liveSockets (run es (mounted now)) \<noteq> [] \<longrightarrow>
        connectWebSocket cid (run es (mounted now)) = run es (mounted now))"
proof -
  have inv: "onlyCurrentLive (run es (mounted now))"
    by (rule inv_run) (rule inv_mounted)
  have one: "length (liveSockets (run es (mounted now))) \<le> 1"
    by (rule at_most_one_live [OF inv])
  have "length (filter (\<lambda>i. url (sockets (run es (mounted now)) ! i) = FASTAPI_BASE_URL @ c)
                (liveSockets (run es (mounted now))))
        \<le> length (liveSockets (run es (mounted now)))"
    by (rule length_filter_le)
  from this one
  have per_session:
    "length (filter (\<lambda>i. url (sockets (run es (mounted now)) ! i) = FASTAPI_BASE_URL @ c)
                (liveSockets (run es (mounted now)))) \<le> 1"
    by (rule order_trans)
  have noop: "liveSockets (run es (mounted now)) \<noteq> [] \<longrightarrow>
        connectWebSocket cid (run es (mounted now)) = run es (mounted now)"
    using live_is_current [OF inv] by (simp add: connect_noop)
  have "wsLive s \<longrightarrow> connectWebSocket cid s = s"
    by (simp add: connect_noop)
  with one per_session noop show ?thesis by blast
qed

theorem single_live_connection_witness:
  "wsLive (mounted 0)
   \<and> connectWebSocket (clientId (mounted 0)) (mounted 0) = mounted 0
   \<and> liveSockets (run [SocketOpen 0] (mounted 0)) = [0]
   \<and> connectWebSocket (clientId (mounted 0)) (run [SocketOpen 0] (mounted 0))
       = run [SocketOpen 0] (mounted 0)"
  using single_live_connection [of "mounted 0" "clientId (mounted 0)" "[SocketOpen 0]" 0
                                   "clientId (mounted 0)"]
  by (simp add: mounted_def initial_def connectWebSocket_def wsLive_def live_def liveSockets_def
        onopen_def setReadyState_def)

end
